theory Spec2Isabelle
  imports Main
begin

section \<open>The interpreter state the shim works on\<close>

text \<open>
  \<^verbatim>\<open>README.py\<close> is a command-line shim: it checks its inputs, patches \<^verbatim>\<open>pathlib\<close>,
  registers placeholder modules, puts the YOLOv5 checkout on the module search path and
  runs \<^verbatim>\<open>export.py\<close> in the same process. Everything it does is an effect on the
  interpreter: on \<^verbatim>\<open>sys.modules\<close>, on module attributes, on \<^verbatim>\<open>sys.path\<close>, on
  \<^verbatim>\<open>os.environ\<close> and on \<^verbatim>\<open>sys.argv\<close>. The model passes that state explicitly.

  Module objects live in a store and are named by references, because the registry can
  hold the same object under two names (\<^verbatim>\<open>pathlib._local\<close> is made an alias of
  \<^verbatim>\<open>pathlib\<close>). \<open>PathlibModule\<close> is the object the shim's global name \<^verbatim>\<open>pathlib\<close> is
  bound to by the \<^verbatim>\<open>import\<close> of line 4; \<open>ModuleAt n\<close> is any other module object.
\<close>

datatype module_ref = PathlibModule | ModuleAt nat

text \<open>
  The values the shim stores in module attributes: \<^verbatim>\<open>None\<close>, integers, strings,
  \<^verbatim>\<open>types.SimpleNamespace\<close> objects (their fields in order), classes and functions (by
  name).
\<close>

datatype pyval =
    VNone
  | VInt int
  | VStr string
  | VNamespace "(string \<times> pyval) list"
  | VClass string
  | VFunc string

text \<open>
  What the shim prints or puts into a \<^verbatim>\<open>SystemExit\<close>. The source's texts are partly
  Chinese; each constructor stands for one of them, with the interpolated value as its
  argument: line 9 (\<open>ErrNoRepo\<close>), line 104 (\<open>ErrNoWeights\<close>), line 110 (\<open>ErrNoOnnx\<close>),
  line 135 (\<open>InfoCalling\<close>), line 138 (\<open>OkDone\<close>). \<open>Text\<close> is any other text, as the
  delegated script may use.
\<close>

datatype message =
    ErrNoRepo string
  | ErrNoWeights string
  | ErrNoOnnx
  | InfoCalling string
  | OkDone
  | Text string

text \<open>
  Exceptions. \<^verbatim>\<open>SystemExit\<close> carries \<^verbatim>\<open>None\<close>, an integer or another object (here a
  message). \<open>Exception\<close> is an instance of any subclass of \<^verbatim>\<open>Exception\<close>, named by its
  class. \<^verbatim>\<open>KeyboardInterrupt\<close> and \<open>BaseException\<close> (any other exception, such as
  \<^verbatim>\<open>GeneratorExit\<close>) are the ones \<^verbatim>\<open>except Exception\<close> does not catch.
\<close>

datatype exit_code = CodeNone | CodeInt int | CodeMsg message

datatype exn =
    SystemExit exit_code
  | Exception string
  | KeyboardInterrupt
  | BaseException string

text \<open>
  How a process ends: with an exit status, or killed by a signal.
\<close>

datatype ending = Exited int | KilledBy string

text \<open>
  How an uncaught exception ends the interpreter (CPython 3.8 or later on a POSIX host
  whose C \<^verbatim>\<open>long\<close> has 64 bits). \<^verbatim>\<open>SystemExit\<close> with \<^verbatim>\<open>None\<close> exits with 0. With an
  integer the interpreter converts it to a C \<^verbatim>\<open>long\<close> and the operating system keeps
  the low 8 bits, so \<^verbatim>\<open>sys.exit(256)\<close> exits with 0 and \<^verbatim>\<open>sys.exit(-1)\<close> with 255; an
  integer that does not fit converts to \<open>-1\<close> and exits with 255. With any other
  object the interpreter prints it and exits with 1. An uncaught \<^verbatim>\<open>KeyboardInterrupt\<close>
  makes the interpreter kill itself with \<^verbatim>\<open>SIGINT\<close>. Every other exception prints a
  traceback and exits with 1.
\<close>

definition fits_c_long :: "int \<Rightarrow> bool" where
  "fits_c_long n = (- (2 ^ 63) \<le> n \<and> n < 2 ^ 63)"

fun exit_status :: "exn \<Rightarrow> ending" where
  "exit_status (SystemExit CodeNone) = Exited 0"
| "exit_status (SystemExit (CodeInt n)) = Exited (if fits_c_long n then n mod 256 else 255)"
| "exit_status (SystemExit (CodeMsg m)) = Exited 1"
| "exit_status (Exception c) = Exited 1"
| "exit_status KeyboardInterrupt = KilledBy ''SIGINT''"
| "exit_status (BaseException c) = Exited 1"

text \<open>
  The exceptions that can end the process with exit status 0: a \<^verbatim>\<open>SystemExit\<close> whose
  argument is \<^verbatim>\<open>None\<close> or an integer multiple of 256.
\<close>

fun zero_exit :: "exn \<Rightarrow> bool" where
  "zero_exit (SystemExit CodeNone) = True"
| "zero_exit (SystemExit (CodeInt n)) = (n mod 256 = 0)"
| "zero_exit (SystemExit (CodeMsg m)) = False"
| "zero_exit (Exception c) = False"
| "zero_exit KeyboardInterrupt = False"
| "zero_exit (BaseException c) = False"

text \<open>\<^verbatim>\<open>except Exception\<close> catches exactly the instances of \<^verbatim>\<open>Exception\<close>.\<close>

fun caught_by_except_Exception :: "exn \<Rightarrow> bool" where
  "caught_by_except_Exception (Exception c) = True"
| "caught_by_except_Exception (SystemExit c) = False"
| "caught_by_except_Exception KeyboardInterrupt = False"
| "caught_by_except_Exception (BaseException c) = False"

record pystate =
  sys_modules :: "string \<rightharpoonup> module_ref"
  attrs :: "module_ref \<Rightarrow> string \<rightharpoonup> pyval"
  next_id :: nat
  sys_path :: "string list"
  environ :: "string \<rightharpoonup> string"
  sys_argv :: "string list"

text \<open>
  \<open>sys_modules\<close> is the module registry and \<open>attrs m\<close> the attribute dictionary of the
  module object \<open>m\<close>. \<open>next_id\<close> is the allocator: \<^verbatim>\<open>types.ModuleType(name)\<close> returns
  the object \<open>ModuleAt (next_id st)\<close>. The registry is taken to hold module objects only
  (a \<^verbatim>\<open>None\<close> entry, which Python allows in order to block an import, is outside the
  model).
\<close>

subsection \<open>Builtins and dictionary methods\<close>

definition setdefault :: "('k \<rightharpoonup> 'v) \<Rightarrow> 'k \<Rightarrow> 'v \<Rightarrow> ('k \<rightharpoonup> 'v)" where
  \<comment> \<open>\<^verbatim>\<open>d.setdefault(k, v)\<close>: store \<open>v\<close> only when \<open>k\<close> is not a key.\<close>
  "setdefault d k v = (case d k of None \<Rightarrow> d(k \<mapsto> v) | Some old \<Rightarrow> d)"

definition hasattr :: "pystate \<Rightarrow> module_ref \<Rightarrow> string \<Rightarrow> bool" where
  "hasattr st m a = (attrs st m a \<noteq> None)"

definition getattr :: "pystate \<Rightarrow> module_ref \<Rightarrow> string \<Rightarrow> exn + pyval" where
  "getattr st m a =
     (case attrs st m a of None \<Rightarrow> Inl (Exception ''AttributeError'') | Some v \<Rightarrow> Inr v)"

definition setattr :: "module_ref \<Rightarrow> string \<Rightarrow> pyval \<Rightarrow> pystate \<Rightarrow> pystate" where
  "setattr m a v st = st\<lparr>attrs := (attrs st)(m := (attrs st m)(a \<mapsto> v))\<rparr>"

definition new_module_dict :: "string \<Rightarrow> (string \<rightharpoonup> pyval)" where
  \<comment> \<open>The attributes of a fresh \<^verbatim>\<open>types.ModuleType(fullname)\<close>.\<close>
  "new_module_dict fullname =
     [''__name__'' \<mapsto> VStr fullname, ''__doc__'' \<mapsto> VNone, ''__package__'' \<mapsto> VNone,
      ''__loader__'' \<mapsto> VNone, ''__spec__'' \<mapsto> VNone]"

text \<open>\<^verbatim>\<open>str(n)\<close> for an integer: decimal digits, with a minus sign when negative.\<close>

fun str_nat :: "nat \<Rightarrow> string" where
  "str_nat n =
     (if n < 10 then [''0123456789'' ! n]
      else str_nat (n div 10) @ [''0123456789'' ! (n mod 10)])"

declare str_nat.simps [simp del]

definition str_int :: "int \<Rightarrow> string" where
  "str_int i = (if i < 0 then CHR ''-'' # str_nat (nat (- i)) else str_nat (nat i))"

fun str_join :: "string \<Rightarrow> string list \<Rightarrow> string" where
  \<comment> \<open>\<^verbatim>\<open>sep.join(xs)\<close>\<close>
  "str_join sep [] = []"
| "str_join sep [x] = x"
| "str_join sep (x # y # ys) = x @ sep @ str_join sep (y # ys)"

subsection \<open>The host: file system, path library, installed packages, delegated script\<close>

text \<open>
  What the shim asks of its host and cannot decide itself: \<^verbatim>\<open>os.name\<close>, the functions
  of \<^verbatim>\<open>os.path\<close> it calls, whether \<^verbatim>\<open>import onnx\<close> succeeds (\<open>None\<close>) or with which
  exception it fails, and what \<^verbatim>\<open>runpy.run_path(script, run_name='__main__')\<close> does to
  the interpreter state: the state it leaves, and the exception it raised, if any. The
  effects of the imports themselves (of \<^verbatim>\<open>argparse\<close>, of \<^verbatim>\<open>onnx\<close>) on the interpreter
  belong to the imported libraries and are left out.
\<close>

record world =
  os_name :: string
  expanduser :: "string \<Rightarrow> string"
  isfile :: "string \<Rightarrow> bool"
  isdir :: "string \<Rightarrow> bool"
  path_join :: "string \<Rightarrow> string \<Rightarrow> string"
  import_onnx :: "exn option"
  run_path :: "string \<Rightarrow> pystate \<Rightarrow> pystate \<times> exn option"

text \<open>
  The POSIX versions of the two path functions, for concrete hosts: \<^verbatim>\<open>posixpath.join\<close>
  of two components, and \<^verbatim>\<open>posixpath.expanduser\<close> when \<^verbatim>\<open>HOME\<close> is \<open>home\<close> (a
  \<^verbatim>\<open>~user\<close> prefix is returned as it is, as when the user is unknown).
\<close>

definition posix_join :: "string \<Rightarrow> string \<Rightarrow> string" where
  "posix_join a b =
     (if b \<noteq> [] \<and> hd b = CHR ''/'' then b
      else if a = [] \<or> last a = CHR ''/'' then a @ b
      else a @ ''/'' @ b)"

definition rstrip_slash :: "string \<Rightarrow> string" where
  "rstrip_slash s = rev (dropWhile (\<lambda>c. c = CHR ''/'') (rev s))"

definition posix_expanduser :: "string \<Rightarrow> string \<Rightarrow> string" where
  "posix_expanduser home p =
     (if p = [] \<or> hd p \<noteq> CHR ''~'' then p
      else if tl p = [] \<or> hd (tl p) = CHR ''/'' then
        (let r = rstrip_slash home @ tl p in if r = [] then ''/'' else r)
      else p)"

section \<open>The shim\<close>

subsection \<open>\<^verbatim>\<open>ensure_repo_on_path\<close> (lines 6 to 12)\<close>

definition ensure_repo_on_path :: "world \<Rightarrow> pystate \<Rightarrow> exn + (string \<times> pystate)" where
  "ensure_repo_on_path w st =
     (let repo = expanduser w ''~/yolov5'' in
      if \<not> isdir w repo then Inl (SystemExit (CodeMsg (ErrNoRepo repo)))
      else if repo \<notin> set (sys_path st) then Inr (repo, st\<lparr>sys_path := repo # sys_path st\<rparr>)
      else Inr (repo, st))"

subsection \<open>\<^verbatim>\<open>patch_pathlib_only\<close> (lines 14 to 21)\<close>

text \<open>
  Reading \<^verbatim>\<open>pathlib.PosixPath\<close> is the one step inside the \<^verbatim>\<open>try\<close> that can raise: an
  \<^verbatim>\<open>AttributeError\<close>, which \<^verbatim>\<open>except Exception: pass\<close> swallows, leaving the state as it
  was after line 16.
\<close>

definition patch_pathlib_only :: "world \<Rightarrow> pystate \<Rightarrow> pystate" where
  "patch_pathlib_only w st =
     (let st1 = st\<lparr>sys_modules := setdefault (sys_modules st) ''pathlib._local'' PathlibModule\<rparr>
      in if os_name w \<noteq> ''nt'' \<and> hasattr st1 PathlibModule ''WindowsPath'' then
           (case getattr st1 PathlibModule ''PosixPath'' of
              Inr posix \<Rightarrow> setattr PathlibModule ''WindowsPath'' posix st1
            | Inl e \<Rightarrow> st1)
         else st1)"

subsection \<open>\<^verbatim>\<open>stub_optional_packages\<close> (lines 23 to 88)\<close>

definition ensure_stub :: "string \<Rightarrow> pystate \<Rightarrow> module_ref \<times> pystate" where
  "ensure_stub fullname st =
     (case sys_modules st fullname of
        Some m \<Rightarrow> (m, st)
      | None \<Rightarrow>
          (let m = ModuleAt (next_id st)
           in (m, st\<lparr>sys_modules := (sys_modules st)(fullname \<mapsto> m),
                     attrs := (attrs st)(m := new_module_dict fullname),
                     next_id := Suc (next_id st)\<rparr>)))"

definition display_ns :: pyval where
  "display_ns =
     VNamespace [(''max_columns'', VInt 10), (''max_rows'', VInt 60), (''max_colwidth'', VInt 50)]"

definition stub_pandas :: "pystate \<Rightarrow> pystate" where
  \<comment> \<open>Lines 38 to 58. Assigning an attribute of a module object does not raise, so the
      \<^verbatim>\<open>try\<close> never reaches its handler.\<close>
  "stub_pandas st =
     (let (pd, s) = ensure_stub ''pandas'' st;
          s = setattr pd ''options'' (VNamespace [(''display'', display_ns)]) s;
          s = setattr pd ''DataFrame'' (VClass ''_DF'') s;
          s = setattr pd ''Series'' (VClass ''_DF'') s
      in s)"

definition stub_matplotlib :: "pystate \<Rightarrow> pystate" where
  \<comment> \<open>Lines 61 to 75.\<close>
  "stub_matplotlib st =
     (let (mpl, s) = ensure_stub ''matplotlib'' st;
          (mpl_colors, s) = ensure_stub ''matplotlib.colors'' s;
          (mpl_ticker, s) = ensure_stub ''matplotlib.ticker'' s;
          (mpl_transforms, s) = ensure_stub ''matplotlib.transforms'' s;
          (plt, s) = ensure_stub ''matplotlib.pyplot'' s;
          s = setattr plt ''figure'' (VFunc ''_noop'') s;
          s = setattr plt ''plot'' (VFunc ''_noop'') s;
          s = setattr plt ''imshow'' (VFunc ''_noop'') s;
          s = setattr plt ''savefig'' (VFunc ''_noop'') s;
          s = setattr plt ''close'' (VFunc ''_noop'') s;
          s = setattr plt ''title'' (VFunc ''_noop'') s;
          s = setattr plt ''subplot'' (VFunc ''_noop'') s;
          s = setattr plt ''axis'' (VFunc ''_noop'') s
      in s)"

definition other_optional :: "string list" where
  "other_optional =
     [''seaborn'', ''numexpr'', ''bottleneck'', ''scipy'',
      ''albumentations'', ''pycocotools'', ''thop'',
      ''cycler'', ''pyparsing'']"

definition stub_others :: "pystate \<Rightarrow> pystate" where
  \<comment> \<open>Lines 78 to 83: the \<^verbatim>\<open>for\<close> loop.\<close>
  "stub_others st = fold (\<lambda>name s. snd (ensure_stub name s)) other_optional st"

definition stub_torchvision :: "pystate \<Rightarrow> pystate" where
  \<comment> \<open>Lines 86 to 88.\<close>
  "stub_torchvision st =
     (let (tv, s) = ensure_stub ''torchvision'' st;
          (tvt, s) = ensure_stub ''torchvision.transforms'' s;
          (tvf, s) = ensure_stub ''torchvision.transforms.functional'' s
      in s)"

definition stub_optional_packages :: "pystate \<Rightarrow> pystate" where
  "stub_optional_packages st =
     stub_torchvision (stub_others (stub_matplotlib (stub_pandas st)))"

text \<open>The names \<^verbatim>\<open>stub_optional_packages\<close> passes to \<^verbatim>\<open>ensure_stub\<close>, in call order.\<close>

definition stub_names :: "string list" where
  "stub_names =
     [''pandas'', ''matplotlib'', ''matplotlib.colors'', ''matplotlib.ticker'',
      ''matplotlib.transforms'', ''matplotlib.pyplot'']
     @ other_optional
     @ [''torchvision'', ''torchvision.transforms'', ''torchvision.transforms.functional'']"

text \<open>
  Resolving \<^verbatim>\<open>import name\<close>: the import system returns the registry's entry when there
  is one. Without one it searches for an installed package; the stubbed packages are the
  ones taken to be absent, so that search ends in \<^verbatim>\<open>ModuleNotFoundError\<close>.
\<close>

definition import_module :: "pystate \<Rightarrow> string \<Rightarrow> exn + module_ref" where
  "import_module st name =
     (case sys_modules st name of
        Some m \<Rightarrow> Inr m
      | None \<Rightarrow> Inl (Exception ''ModuleNotFoundError''))"

text \<open>\<^verbatim>\<open>name in sys.modules\<close>\<close>

definition registered :: "pystate \<Rightarrow> string \<Rightarrow> bool" where
  "registered st name = (sys_modules st name \<noteq> None)"

subsection \<open>\<^verbatim>\<open>main\<close> (lines 92 to 138)\<close>

text \<open>
  The parsed command line (lines 94 to 100), and its defaults. Parsing itself is
  \<^verbatim>\<open>argparse\<close>'s.
\<close>

record args =
  weights :: string
  imgsz :: int
  opset :: int
  dynamic :: bool
  simplify :: bool

definition default_args :: "string \<Rightarrow> args" where
  "default_args wt =
     \<lparr>weights = wt, imgsz = 640, opset = 12, dynamic = False, simplify = False\<rparr>"

text \<open>
  A run's result: the interpreter state at the end, the uncaught exception (\<open>None\<close> when
  \<^verbatim>\<open>main\<close> returned), the call of \<^verbatim>\<open>runpy.run_path\<close> if one was made (the script path
  and the state handed over), and what the shim itself printed on standard output.
\<close>

record result =
  final :: pystate
  outcome :: "exn option"
  handoff :: "(string \<times> pystate) option"
  printed :: "message list"

definition process_status :: "result \<Rightarrow> ending" where
  "process_status r = (case outcome r of None \<Rightarrow> Exited 0 | Some e \<Rightarrow> exit_status e)"

definition raise_before_export :: "pystate \<Rightarrow> exn \<Rightarrow> result" where
  "raise_before_export st e = \<lparr>final = st, outcome = Some e, handoff = None, printed = []\<rparr>"

definition export_argv :: "world \<Rightarrow> string \<Rightarrow> string \<Rightarrow> args \<Rightarrow> string list" where
  \<comment> \<open>Lines 123 to 133.\<close>
  "export_argv w repo wt a =
     [path_join w repo ''export.py'',
      ''--weights'', wt,
      ''--include'', ''onnx'',
      ''--imgsz'', str_int (imgsz a),
      ''--opset'', str_int (opset a)]
     @ (if dynamic a then [''--dynamic''] else [])
     @ (if simplify a then [''--simplify''] else [])"

definition set_autoinstall_env :: "pystate \<Rightarrow> pystate" where
  \<comment> \<open>Lines 120 and 121.\<close>
  "set_autoinstall_env st =
     st\<lparr>environ :=
          setdefault (setdefault (environ st) ''YOLOV5_AUTOINSTALL'' ''0'')
            ''ULTRALYTICS_NO_AUTOINSTALL'' ''1''\<rparr>"

definition run_export :: "world \<Rightarrow> string \<Rightarrow> string \<Rightarrow> args \<Rightarrow> pystate \<Rightarrow> result" where
  \<comment> \<open>Lines 120 to 138.\<close>
  "run_export w repo wt a st =
     (let st1 = set_autoinstall_env st;
          argv = export_argv w repo wt a;
          info = InfoCalling (str_join '' '' argv);
          st2 = st1\<lparr>sys_argv := argv\<rparr>;
          script = path_join w repo ''export.py''
      in case run_path w script st2 of
           (st3, Some e) \<Rightarrow>
             \<lparr>final = st3, outcome = Some e, handoff = Some (script, st2), printed = [info]\<rparr>
         | (st3, None) \<Rightarrow>
             \<lparr>final = st3, outcome = None, handoff = Some (script, st2),
              printed = [info, OkDone]\<rparr>)"

definition main :: "world \<Rightarrow> args \<Rightarrow> pystate \<Rightarrow> result" where
  "main w a st =
     (let wt = expanduser w (weights a) in
      if \<not> isfile w wt then raise_before_export st (SystemExit (CodeMsg (ErrNoWeights wt)))
      else
        (case import_onnx w of
           Some e \<Rightarrow>
             if caught_by_except_Exception e
             then raise_before_export st (SystemExit (CodeMsg ErrNoOnnx))
             else raise_before_export st e
         | None \<Rightarrow>
             (let st1 = patch_pathlib_only w st;
                  st2 = stub_optional_packages st1
              in case ensure_repo_on_path w st2 of
                   Inl e \<Rightarrow> raise_before_export st2 e
                 | Inr (repo, st3) \<Rightarrow> run_export w repo wt a st3)))"

section \<open>Concrete hosts and states\<close>

text \<open>
  A Raspberry Pi as the script's header describes it: a POSIX host, home directory
  \<^verbatim>\<open>/home/pi\<close>, the checkout at \<^verbatim>\<open>~/yolov5\<close>, a checkpoint at \<^verbatim>\<open>~/best.pt\<close>, onnx
  installed, and an export script that returns without touching the interpreter state.
\<close>

definition pi_world :: world where
  "pi_world =
     \<lparr>os_name = ''posix'',
      expanduser = posix_expanduser ''/home/pi'',
      isfile = (\<lambda>p. p = ''/home/pi/best.pt''),
      isdir = (\<lambda>p. p = ''/home/pi/yolov5''),
      path_join = posix_join,
      import_onnx = None,
      run_path = (\<lambda>script st. (st, None))\<rparr>"

text \<open>The same host with an export script that fails, and one that calls \<^verbatim>\<open>sys.exit(0)\<close>.\<close>

definition failing_export_world :: world where
  "failing_export_world =
     pi_world\<lparr>run_path := (\<lambda>script st. (st, Some (Exception ''RuntimeError'')))\<rparr>"

definition exiting_export_world :: world where
  "exiting_export_world =
     pi_world\<lparr>run_path := (\<lambda>script st. (st, Some (SystemExit (CodeInt 0))))\<rparr>"

text \<open>The same host without onnx, and without the checkout.\<close>

definition no_onnx_world :: world where
  "no_onnx_world = pi_world\<lparr>import_onnx := Some (Exception ''ModuleNotFoundError'')\<rparr>"

definition no_repo_world :: world where
  "no_repo_world = pi_world\<lparr>isdir := (\<lambda>p. False)\<rparr>"

text \<open>
  The interpreter when \<^verbatim>\<open>main\<close> starts: the modules of line 4 are registered,
  \<^verbatim>\<open>pathlib\<close> defines both path classes, nothing optional is installed.
\<close>

definition pathlib_dict :: "string \<rightharpoonup> pyval" where
  "pathlib_dict =
     [''__name__'' \<mapsto> VStr ''pathlib'',
      ''PosixPath'' \<mapsto> VClass ''pathlib.PosixPath'',
      ''WindowsPath'' \<mapsto> VClass ''pathlib.WindowsPath'']"

definition boot_state :: pystate where
  "boot_state =
     \<lparr>sys_modules =
        [''sys'' \<mapsto> ModuleAt 0, ''os'' \<mapsto> ModuleAt 1, ''pathlib'' \<mapsto> PathlibModule,
         ''types'' \<mapsto> ModuleAt 2, ''runpy'' \<mapsto> ModuleAt 3],
      attrs = (\<lambda>m. Map.empty)(PathlibModule := pathlib_dict),
      next_id = 4,
      sys_path = [''/home/pi'', ''/usr/lib/python3.11''],
      environ = [''HOME'' \<mapsto> ''/home/pi''],
      sys_argv = [''README.py'', ''--weights'', ''~/best.pt'']\<rparr>"

text \<open>
  An interpreter in which \<^verbatim>\<open>pathlib\<close> is a package with a submodule of its own
  registered as \<^verbatim>\<open>pathlib._local\<close> (as in Python 3.13).
\<close>

definition package_pathlib_state :: pystate where
  "package_pathlib_state =
     boot_state\<lparr>sys_modules := (sys_modules boot_state)(''pathlib._local'' \<mapsto> ModuleAt 4),
                next_id := 5\<rparr>"

text \<open>An interpreter in which the genuine pandas has been imported already.\<close>

definition pandas_dict :: "string \<rightharpoonup> pyval" where
  "pandas_dict =
     [''__name__'' \<mapsto> VStr ''pandas'',
      ''DataFrame'' \<mapsto> VClass ''pandas.core.frame.DataFrame'',
      ''Series'' \<mapsto> VClass ''pandas.core.series.Series'']"

definition pandas_state :: pystate where
  "pandas_state =
     boot_state\<lparr>sys_modules := (sys_modules boot_state)(''pandas'' \<mapsto> ModuleAt 4),
                attrs := (attrs boot_state)(ModuleAt 4 := pandas_dict),
                next_id := 5\<rparr>"

text \<open>
  An interpreter started with the checkout already on the search path, behind the
  script's own directory (as \<^verbatim>\<open>PYTHONPATH=/home/pi/yolov5\<close> gives).
\<close>

definition pythonpath_state :: pystate where
  "pythonpath_state =
     boot_state\<lparr>sys_path := [''/home/pi'', ''/home/pi/yolov5'', ''/usr/lib/python3.11'']\<rparr>"

text \<open>An environment in which the caller has set one of the two switches.\<close>

definition caller_env_state :: pystate where
  "caller_env_state =
     boot_state\<lparr>environ := (environ boot_state)(''YOLOV5_AUTOINSTALL'' \<mapsto> ''1'')\<rparr>"

section \<open>Facts about the state components\<close>

lemma sys_modules_setattr [simp]: "sys_modules (setattr m a v s) = sys_modules s"
  and sys_path_setattr [simp]: "sys_path (setattr m a v s) = sys_path s"
  and environ_setattr [simp]: "environ (setattr m a v s) = environ s"
  by (simp_all add: setattr_def)

lemma sys_path_ensure_stub [simp]: "sys_path (snd (ensure_stub n s)) = sys_path s"
  and environ_ensure_stub [simp]: "environ (snd (ensure_stub n s)) = environ s"
  by (simp_all add: ensure_stub_def Let_def split: option.splits)

lemma ensure_stub_keeps:
  "sys_modules s k = Some m \<Longrightarrow> sys_modules (snd (ensure_stub n s)) k = Some m"
  by (auto simp add: ensure_stub_def Let_def split: option.splits)

lemma registered_setattr [simp]: "registered (setattr m a v s) k = registered s k"
  by (simp add: registered_def)

lemma registered_ensure_stub [simp]:
  "registered (snd (ensure_stub n s)) k = (k = n \<or> registered s k)"
  by (auto simp add: registered_def ensure_stub_def Let_def split: option.splits)

lemma registered_fold_ensure_stub [simp]:
  "registered (fold (\<lambda>name s. snd (ensure_stub name s)) ns s) k = (k \<in> set ns \<or> registered s k)"
  by (induction ns arbitrary: s) auto

lemma registered_stub_pandas [simp]:
  "registered (stub_pandas s) k = (k = ''pandas'' \<or> registered s k)"
  by (simp add: stub_pandas_def Let_def split_def)

lemma registered_stub_matplotlib [simp]:
  "registered (stub_matplotlib s) k =
     (k \<in> {''matplotlib'', ''matplotlib.colors'', ''matplotlib.ticker'',
            ''matplotlib.transforms'', ''matplotlib.pyplot''} \<or> registered s k)"
  by (auto simp add: stub_matplotlib_def Let_def split_def)

lemma registered_stub_others [simp]:
  "registered (stub_others s) k = (k \<in> set other_optional \<or> registered s k)"
  by (simp add: stub_others_def)

lemma registered_stub_torchvision [simp]:
  "registered (stub_torchvision s) k =
     (k \<in> {''torchvision'', ''torchvision.transforms'', ''torchvision.transforms.functional''}
      \<or> registered s k)"
  by (auto simp add: stub_torchvision_def Let_def split_def)

lemma registered_stub_optional_packages:
  "registered (stub_optional_packages s) k = (k \<in> set stub_names \<or> registered s k)"
  by (auto simp add: stub_optional_packages_def stub_names_def)

lemma sys_path_fold_ensure_stub [simp]:
  "sys_path (fold (\<lambda>name s. snd (ensure_stub name s)) ns s) = sys_path s"
  by (induction ns arbitrary: s) auto

lemma environ_fold_ensure_stub [simp]:
  "environ (fold (\<lambda>name s. snd (ensure_stub name s)) ns s) = environ s"
  by (induction ns arbitrary: s) auto

lemma sys_path_stub_optional_packages [simp]:
  "sys_path (stub_optional_packages s) = sys_path s"
  by (simp add: stub_optional_packages_def stub_torchvision_def stub_others_def
      stub_matplotlib_def stub_pandas_def Let_def split_def)

lemma environ_stub_optional_packages [simp]:
  "environ (stub_optional_packages s) = environ s"
  by (simp add: stub_optional_packages_def stub_torchvision_def stub_others_def
      stub_matplotlib_def stub_pandas_def Let_def split_def)

lemma sys_path_patch_pathlib_only [simp]: "sys_path (patch_pathlib_only w s) = sys_path s"
  by (simp add: patch_pathlib_only_def Let_def split: sum.splits)

lemma environ_patch_pathlib_only [simp]: "environ (patch_pathlib_only w s) = environ s"
  by (simp add: patch_pathlib_only_def Let_def split: sum.splits)

lemma main_reaches_export:
  assumes "isfile w (expanduser w (weights a))" and "import_onnx w = None"
    and "isdir w (expanduser w ''~/yolov5'')"
  shows "main w a st =
    run_export w (expanduser w ''~/yolov5'') (expanduser w (weights a)) a
      (let s = stub_optional_packages (patch_pathlib_only w st)
       in if expanduser w ''~/yolov5'' \<in> set (sys_path s) then s
          else s\<lparr>sys_path := expanduser w ''~/yolov5'' # sys_path s\<rparr>)"
  using assms by (simp add: main_def ensure_repo_on_path_def Let_def)

lemma handoff_run_export:
  "handoff (run_export w repo wt a s) =
     Some (path_join w repo ''export.py'', (set_autoinstall_env s)\<lparr>sys_argv := export_argv w repo wt a\<rparr>)"
  by (simp add: run_export_def Let_def split: prod.splits option.splits)

lemma exit_status_zero: "exit_status e = Exited 0 \<Longrightarrow> zero_exit e"
  by (induction e rule: zero_exit.induct) (simp_all split: if_splits)

lemma environ_set_autoinstall_env:
  "environ (set_autoinstall_env s) k =
     (if k = ''YOLOV5_AUTOINSTALL'' then
        Some (case environ s k of None \<Rightarrow> ''0'' | Some v \<Rightarrow> v)
      else if k = ''ULTRALYTICS_NO_AUTOINSTALL'' then
        Some (case environ s k of None \<Rightarrow> ''1'' | Some v \<Rightarrow> v)
      else environ s k)"
  by (simp add: set_autoinstall_env_def setdefault_def split: option.splits)

lemma fold_ensure_stub_keeps:
  "sys_modules s k = Some m \<Longrightarrow>
   sys_modules (fold (\<lambda>name s. snd (ensure_stub name s)) ns s) k = Some m"
  by (induction ns arbitrary: s) (simp_all add: ensure_stub_keeps)

section \<open>The claims\<close>

text \<open>
  C1. For every parsed configuration, on a host where the weights file exists, onnx
  imports and the checkout directory \<open>repo = expanduser('~/yolov5')\<close> exists, \<^verbatim>\<open>main\<close>
  calls \<^verbatim>\<open>runpy.run_path\<close> on \<open>join(repo, 'export.py')\<close> with \<^verbatim>\<open>sys.argv\<close> equal to
  that script path, \<^verbatim>\<open>--weights\<close>, the expanded weights path, \<^verbatim>\<open>--include onnx\<close>,
  \<^verbatim>\<open>--imgsz str(imgsz)\<close>, \<^verbatim>\<open>--opset str(opset)\<close>, then \<^verbatim>\<open>--dynamic\<close> exactly when the
  dynamic flag is set and \<^verbatim>\<open>--simplify\<close> exactly when the simplify flag is set. With
  every option at its default the vector ends with \<^verbatim>\<open>--imgsz 640 --opset 12\<close>.
\<close>

theorem main_export_argv:
  assumes "isfile w (expanduser w (weights a))" and "import_onnx w = None"
    and "isdir w (expanduser w ''~/yolov5'')"
  shows "map_option fst (handoff (main w a st)) =
           Some (path_join w (expanduser w ''~/yolov5'') ''export.py'')
       \<and> map_option (sys_argv \<circ> snd) (handoff (main w a st)) =
           Some ([path_join w (expanduser w ''~/yolov5'') ''export.py'',
                  ''--weights'', expanduser w (weights a),
                  ''--include'', ''onnx'',
                  ''--imgsz'', str_int (imgsz a),
                  ''--opset'', str_int (opset a)]
                 @ (if dynamic a then [''--dynamic''] else [])
                 @ (if simplify a then [''--simplify''] else []))
       \<and> (a = default_args (weights a) \<longrightarrow>
            map_option (sys_argv \<circ> snd) (handoff (main w a st)) =
              Some [path_join w (expanduser w ''~/yolov5'') ''export.py'',
                    ''--weights'', expanduser w (weights a),
                    ''--include'', ''onnx'', ''--imgsz'', ''640'', ''--opset'', ''12''])"
proof -
  have num: "str_int 640 = ''640''" "str_int 12 = ''12''"
    by (simp_all add: str_int_def str_nat.simps)
  have dflt: "imgsz a = 640 \<and> opset a = 12 \<and> \<not> dynamic a \<and> \<not> simplify a"
    if "a = default_args (weights a)"
  proof -
    have "imgsz (default_args (weights a)) = 640 \<and> opset (default_args (weights a)) = 12
      \<and> \<not> dynamic (default_args (weights a)) \<and> \<not> simplify (default_args (weights a))"
      by (simp add: default_args_def)
    with that show ?thesis by simp
  qed
  show ?thesis
    using num dflt
    by (auto simp add: main_reaches_export [OF assms] handoff_run_export export_argv_def)
qed

theorem main_export_argv_witness:
  "isfile pi_world (expanduser pi_world (weights (default_args ''~/best.pt'')))
   \<and> import_onnx pi_world = None
   \<and> isdir pi_world (expanduser pi_world ''~/yolov5'')
   \<and> map_option (sys_argv \<circ> snd) (handoff (main pi_world (default_args ''~/best.pt'') boot_state)) =
     Some [''/home/pi/yolov5/export.py'', ''--weights'', ''/home/pi/best.pt'',
           ''--include'', ''onnx'', ''--imgsz'', ''640'', ''--opset'', ''12'']"
  using main_export_argv [of pi_world "default_args ''~/best.pt''" boot_state]
  by (simp add: pi_world_def default_args_def posix_expanduser_def posix_join_def rstrip_slash_def)

text \<open>
  C2. The claim: for every name on the stub list that is registered before
  \<^verbatim>\<open>stub_optional_packages\<close> runs, the registered module is left as it was, registry entry
  and attributes. The code keeps the registry entry, but lines 46, 55 and 56 assign
  \<^verbatim>\<open>options\<close>, \<^verbatim>\<open>DataFrame\<close> and \<^verbatim>\<open>Series\<close> on whatever \<^verbatim>\<open>ensure_stub('pandas')\<close>
  returned, and lines 68 to 75 do the same for eight functions of
  \<^verbatim>\<open>matplotlib.pyplot\<close>: with the genuine pandas registered, its \<^verbatim>\<open>DataFrame\<close> class is
  replaced by the placeholder class \<^verbatim>\<open>_DF\<close>. The theorem runs the code on that state.
\<close>

theorem stub_optional_packages_overwrites_pandas:
  "registered pandas_state ''pandas''
   \<and> sys_modules pandas_state ''pandas'' = Some (ModuleAt 4)
   \<and> attrs pandas_state (ModuleAt 4) ''DataFrame'' = Some (VClass ''pandas.core.frame.DataFrame'')
   \<and> sys_modules (stub_optional_packages pandas_state) ''pandas'' = Some (ModuleAt 4)
   \<and> attrs (stub_optional_packages pandas_state) (ModuleAt 4) ''DataFrame'' = Some (VClass ''_DF'')"
  by (simp add: registered_def stub_optional_packages_def stub_torchvision_def
        stub_others_def stub_matplotlib_def stub_pandas_def other_optional_def
        ensure_stub_def setattr_def pandas_state_def pandas_dict_def boot_state_def Let_def)

text \<open>
  C3. When the weights path, after \<^verbatim>\<open>expanduser\<close>, is not an existing file, \<^verbatim>\<open>main\<close>
  ends in \<^verbatim>\<open>SystemExit\<close> with a message (process status 1), the interpreter state is
  the one it started with (registry, module attributes, search path and environment
  untouched), and \<^verbatim>\<open>runpy.run_path\<close> has not been called.
\<close>

theorem main_missing_weights:
  assumes "\<not> isfile w (expanduser w (weights a))"
  shows "final (main w a st) = st
       \<and> handoff (main w a st) = None
       \<and> printed (main w a st) = []
       \<and> outcome (main w a st) =
           Some (SystemExit (CodeMsg (ErrNoWeights (expanduser w (weights a)))))
       \<and> process_status (main w a st) = Exited 1"
  using assms by (simp add: main_def raise_before_export_def process_status_def)

theorem main_missing_weights_witness:
  "\<not> isfile pi_world (expanduser pi_world (weights (default_args ''~/missing.pt'')))
   \<and> final (main pi_world (default_args ''~/missing.pt'') boot_state) = boot_state
   \<and> handoff (main pi_world (default_args ''~/missing.pt'') boot_state) = None
   \<and> outcome (main pi_world (default_args ''~/missing.pt'') boot_state) =
        Some (SystemExit (CodeMsg (ErrNoWeights ''/home/pi/missing.pt'')))
   \<and> process_status (main pi_world (default_args ''~/missing.pt'') boot_state) = Exited 1"
  using main_missing_weights [of pi_world "default_args ''~/missing.pt''" boot_state]
  by (simp add: pi_world_def default_args_def posix_expanduser_def rstrip_slash_def)

text \<open>
  C4. When none of the eighteen names of the stub list is registered,
  after \<^verbatim>\<open>stub_optional_packages\<close> every one of them is registered and importing it
  yields a module, not an error.
\<close>

theorem stub_optional_packages_importable:
  assumes "\<forall>name \<in> set stub_names. \<not> registered st name"
  shows "stub_names =
           [''pandas'', ''matplotlib'', ''matplotlib.colors'', ''matplotlib.ticker'',
            ''matplotlib.transforms'', ''matplotlib.pyplot'', ''seaborn'', ''numexpr'',
            ''bottleneck'', ''scipy'', ''albumentations'', ''pycocotools'', ''thop'',
            ''cycler'', ''pyparsing'', ''torchvision'', ''torchvision.transforms'',
            ''torchvision.transforms.functional'']
       \<and> (\<forall>name \<in> set stub_names.
            registered (stub_optional_packages st) name
            \<and> (\<exists>m. import_module (stub_optional_packages st) name = Inr m))"
proof -
  have names: "stub_names =
           [''pandas'', ''matplotlib'', ''matplotlib.colors'', ''matplotlib.ticker'',
            ''matplotlib.transforms'', ''matplotlib.pyplot'', ''seaborn'', ''numexpr'',
            ''bottleneck'', ''scipy'', ''albumentations'', ''pycocotools'', ''thop'',
            ''cycler'', ''pyparsing'', ''torchvision'', ''torchvision.transforms'',
            ''torchvision.transforms.functional'']"
    by (simp add: stub_names_def other_optional_def)
  have reg: "registered (stub_optional_packages st) name" if "name \<in> set stub_names" for name
    using that by (simp add: registered_stub_optional_packages)
  have imp: "\<exists>m. import_module s name = Inr m" if "registered s name" for s name
    using that by (auto simp add: registered_def import_module_def split: option.splits)
  from names reg imp show ?thesis by blast
qed

theorem stub_optional_packages_importable_witness:
  "list_all (\<lambda>name. \<not> registered boot_state name) stub_names
   \<and> list_all (\<lambda>name. registered (stub_optional_packages boot_state) name) stub_names
   \<and> import_module boot_state ''matplotlib.pyplot'' = Inl (Exception ''ModuleNotFoundError'')
   \<and> import_module (stub_optional_packages boot_state) ''matplotlib.pyplot'' = Inr (ModuleAt 9)"
proof -
  have free: "\<forall>name \<in> set stub_names. \<not> registered boot_state name"
    by (simp add: stub_names_def other_optional_def registered_def boot_state_def)
  have before: "import_module boot_state ''matplotlib.pyplot'' = Inl (Exception ''ModuleNotFoundError'')"
    by (simp add: import_module_def boot_state_def)
  have after: "import_module (stub_optional_packages boot_state) ''matplotlib.pyplot'' = Inr (ModuleAt 9)"
    by (simp add: import_module_def stub_optional_packages_def stub_torchvision_def
        stub_others_def stub_matplotlib_def stub_pandas_def other_optional_def
        ensure_stub_def setattr_def boot_state_def Let_def)
  from stub_optional_packages_importable [OF free] free before after
  show ?thesis by (simp add: list_all_iff)
qed

text \<open>
  C5. The claim: on a host that is not Windows and whose \<^verbatim>\<open>pathlib\<close> defines
  \<^verbatim>\<open>WindowsPath\<close>, after \<^verbatim>\<open>patch_pathlib_only\<close> \<^verbatim>\<open>pathlib.WindowsPath\<close> is
  \<^verbatim>\<open>pathlib.PosixPath\<close>, and in every run the registry maps \<^verbatim>\<open>pathlib._local\<close> to
  \<^verbatim>\<open>pathlib\<close>. The second part fails where \<^verbatim>\<open>pathlib._local\<close> is registered already:
  line 16 is a \<^verbatim>\<open>setdefault\<close> and leaves that entry alone.
\<close>

theorem patch_pathlib_only_alias_counterexample:
  "sys_modules package_pathlib_state ''pathlib._local'' = Some (ModuleAt 4)
   \<and> sys_modules (patch_pathlib_only pi_world package_pathlib_state) ''pathlib._local''
       = Some (ModuleAt 4)
   \<and> sys_modules (patch_pathlib_only pi_world package_pathlib_state) ''pathlib._local''
       \<noteq> Some PathlibModule"
  by (simp add: patch_pathlib_only_def package_pathlib_state_def boot_state_def pi_world_def
      setdefault_def hasattr_def getattr_def setattr_def pathlib_dict_def Let_def)

text \<open>
  C5, as amended. After \<^verbatim>\<open>patch_pathlib_only\<close> the registry maps \<^verbatim>\<open>pathlib._local\<close> to
  \<^verbatim>\<open>pathlib\<close> when that name was not registered before, and to the module that was
  registered under it otherwise. On a host whose \<^verbatim>\<open>os.name\<close> is not \<^verbatim>\<open>nt\<close> and whose
  \<^verbatim>\<open>pathlib\<close> defines \<^verbatim>\<open>WindowsPath\<close> and \<^verbatim>\<open>PosixPath\<close>, \<^verbatim>\<open>pathlib.WindowsPath\<close> then is
  \<^verbatim>\<open>pathlib.PosixPath\<close>, which is unchanged.
\<close>

theorem patch_pathlib_only_effect:
  "sys_modules (patch_pathlib_only w st) ''pathlib._local'' =
     (case sys_modules st ''pathlib._local'' of
        None \<Rightarrow> Some PathlibModule
      | Some m \<Rightarrow> Some m)
   \<and> (os_name w \<noteq> ''nt'' \<and> hasattr st PathlibModule ''WindowsPath''
        \<and> hasattr st PathlibModule ''PosixPath'' \<longrightarrow>
        attrs (patch_pathlib_only w st) PathlibModule ''WindowsPath''
          = attrs (patch_pathlib_only w st) PathlibModule ''PosixPath''
        \<and> attrs (patch_pathlib_only w st) PathlibModule ''PosixPath''
          = attrs st PathlibModule ''PosixPath'')"
  by (auto simp add: patch_pathlib_only_def setdefault_def hasattr_def getattr_def setattr_def
      Let_def split: option.splits sum.splits)

theorem patch_pathlib_only_effect_witness:
  "os_name pi_world \<noteq> ''nt''
   \<and> hasattr boot_state PathlibModule ''WindowsPath''
   \<and> hasattr boot_state PathlibModule ''PosixPath''
   \<and> sys_modules boot_state ''pathlib._local'' = None
   \<and> sys_modules (patch_pathlib_only pi_world boot_state) ''pathlib._local'' = Some PathlibModule
   \<and> attrs (patch_pathlib_only pi_world boot_state) PathlibModule ''WindowsPath''
       = Some (VClass ''pathlib.PosixPath'')
   \<and> attrs (patch_pathlib_only pi_world boot_state) PathlibModule ''PosixPath''
       = Some (VClass ''pathlib.PosixPath'')"
  using patch_pathlib_only_effect [of pi_world boot_state]
  by (simp add: pi_world_def boot_state_def hasattr_def pathlib_dict_def)

text \<open>
  C6. With an existing weights file and onnx importable, when the checkout directory
  \<^verbatim>\<open>~/yolov5\<close> does not exist \<^verbatim>\<open>main\<close> ends in \<^verbatim>\<open>SystemExit\<close> with the message of line 9
  (process status 1) and \<^verbatim>\<open>runpy.run_path\<close> has not been called; the search path is
  as it was, so no framework module has become importable either.
\<close>

theorem main_missing_repo:
  assumes "isfile w (expanduser w (weights a))" and "import_onnx w = None"
    and "\<not> isdir w (expanduser w ''~/yolov5'')"
  shows "outcome (main w a st) = Some (SystemExit (CodeMsg (ErrNoRepo (expanduser w ''~/yolov5''))))
       \<and> process_status (main w a st) = Exited 1
       \<and> handoff (main w a st) = None
       \<and> printed (main w a st) = []
       \<and> sys_path (final (main w a st)) = sys_path st"
  using assms
  by (simp add: main_def ensure_repo_on_path_def raise_before_export_def process_status_def Let_def)

theorem main_missing_repo_witness:
  "isfile no_repo_world (expanduser no_repo_world (weights (default_args ''~/best.pt'')))
   \<and> import_onnx no_repo_world = None
   \<and> \<not> isdir no_repo_world (expanduser no_repo_world ''~/yolov5'')
   \<and> outcome (main no_repo_world (default_args ''~/best.pt'') boot_state)
       = Some (SystemExit (CodeMsg (ErrNoRepo ''/home/pi/yolov5'')))
   \<and> process_status (main no_repo_world (default_args ''~/best.pt'') boot_state) = Exited 1
   \<and> handoff (main no_repo_world (default_args ''~/best.pt'') boot_state) = None"
  using main_missing_repo [of no_repo_world "default_args ''~/best.pt''" boot_state]
  by (simp add: no_repo_world_def pi_world_def default_args_def posix_expanduser_def
      rstrip_slash_def)

text \<open>
  C7. The claim: whatever exception the export script raises, the shim does not catch
  it, the process ends with a non-zero status and the success message is not printed.
  A script that calls \<^verbatim>\<open>sys.exit(0)\<close> raises \<^verbatim>\<open>SystemExit(0)\<close>; nothing catches it and the
  process ends with status 0.
\<close>

theorem main_export_exit_counterexample:
  "map_option fst (handoff (main exiting_export_world (default_args ''~/best.pt'') boot_state))
     = Some ''/home/pi/yolov5/export.py''
   \<and> map_option (snd \<circ> run_path exiting_export_world ''/home/pi/yolov5/export.py'' \<circ> snd)
        (handoff (main exiting_export_world (default_args ''~/best.pt'') boot_state))
     = Some (Some (SystemExit (CodeInt 0)))
   \<and> outcome (main exiting_export_world (default_args ''~/best.pt'') boot_state)
     = Some (SystemExit (CodeInt 0))
   \<and> process_status (main exiting_export_world (default_args ''~/best.pt'') boot_state)
     = Exited 0"
  by (simp add: main_def run_export_def ensure_repo_on_path_def process_status_def
      exiting_export_world_def pi_world_def default_args_def posix_expanduser_def
      posix_join_def rstrip_slash_def fits_c_long_def Let_def)

text \<open>
  C7, as amended. If the export script raises an exception, \<^verbatim>\<open>main\<close> ends with that very
  exception, in the state the script left, without having printed the success message.
  The process then does not end with exit status 0 (it ends with a non-zero status, or
  is killed by \<^verbatim>\<open>SIGINT\<close> after a \<^verbatim>\<open>KeyboardInterrupt\<close>), unless the exception is a
  \<^verbatim>\<open>SystemExit\<close> whose argument is \<^verbatim>\<open>None\<close> or an integer multiple of 256; with \<^verbatim>\<open>None\<close>
  or 0, as after \<^verbatim>\<open>sys.exit()\<close> and \<^verbatim>\<open>sys.exit(0)\<close>, it ends with exit status 0. And the
  success message is printed only when \<^verbatim>\<open>runpy.run_path\<close> was called and returned
  normally.
\<close>

theorem main_export_raises:
  "(handoff (main w a st) = Some (script, pre) \<and> run_path w script pre = (st', Some e) \<longrightarrow>
      outcome (main w a st) = Some e
      \<and> final (main w a st) = st'
      \<and> OkDone \<notin> set (printed (main w a st))
      \<and> (\<not> zero_exit e \<longrightarrow> process_status (main w a st) \<noteq> Exited 0)
      \<and> (e = SystemExit CodeNone \<or> e = SystemExit (CodeInt 0) \<longrightarrow>
            process_status (main w a st) = Exited 0))
   \<and> (OkDone \<in> set (printed (main w a st)) \<longrightarrow>
        outcome (main w a st) = None
        \<and> (\<exists>script pre. handoff (main w a st) = Some (script, pre)
             \<and> snd (run_path w script pre) = None))"
proof (intro conjI impI)
  assume h: "handoff (main w a st) = Some (script, pre) \<and> run_path w script pre = (st', Some e)"
  then have o: "outcome (main w a st) = Some e"
    by (auto simp add: main_def run_export_def raise_before_export_def Let_def
        split: option.splits sum.splits prod.splits if_splits)
  from h show "final (main w a st) = st'"
    by (auto simp add: main_def run_export_def raise_before_export_def Let_def
        split: option.splits sum.splits prod.splits if_splits)
  from h show "OkDone \<notin> set (printed (main w a st))"
    by (auto simp add: main_def run_export_def raise_before_export_def Let_def
        split: option.splits sum.splits prod.splits if_splits)
  from o show "outcome (main w a st) = Some e" .
  from o have p: "process_status (main w a st) = exit_status e"
    by (simp add: process_status_def)
  show "process_status (main w a st) \<noteq> Exited 0" if "\<not> zero_exit e"
    using that p exit_status_zero [of e] by auto
  show "process_status (main w a st) = Exited 0"
    if "e = SystemExit CodeNone \<or> e = SystemExit (CodeInt 0)"
    using that p by (auto simp add: fits_c_long_def)
next
  assume "OkDone \<in> set (printed (main w a st))"
  then show "outcome (main w a st) = None"
    by (auto simp add: main_def run_export_def raise_before_export_def Let_def
        split: option.splits sum.splits prod.splits if_splits)
next
  assume "OkDone \<in> set (printed (main w a st))"
  then show "\<exists>script pre. handoff (main w a st) = Some (script, pre)
      \<and> snd (run_path w script pre) = None"
    by (auto simp add: main_def run_export_def raise_before_export_def Let_def
        split: option.splits sum.splits prod.splits if_splits)
qed

theorem main_export_raises_witness:
  "(\<exists>script pre st'.
      handoff (main failing_export_world (default_args ''~/best.pt'') boot_state)
        = Some (script, pre)
      \<and> run_path failing_export_world script pre = (st', Some (Exception ''RuntimeError''))
      \<and> final (main failing_export_world (default_args ''~/best.pt'') boot_state) = st')
   \<and> outcome (main failing_export_world (default_args ''~/best.pt'') boot_state)
       = Some (Exception ''RuntimeError'')
   \<and> OkDone \<notin> set (printed (main failing_export_world (default_args ''~/best.pt'') boot_state))
   \<and> process_status (main failing_export_world (default_args ''~/best.pt'') boot_state)
       \<noteq> Exited 0"
proof -
  let ?r = "main failing_export_world (default_args ''~/best.pt'') boot_state"
  have reach: "isfile failing_export_world
        (expanduser failing_export_world (weights (default_args ''~/best.pt'')))"
      "import_onnx failing_export_world = None"
      "isdir failing_export_world (expanduser failing_export_world ''~/yolov5'')"
    by (simp_all add: failing_export_world_def pi_world_def default_args_def
        posix_expanduser_def rstrip_slash_def)
  obtain script pre where h: "handoff ?r = Some (script, pre)"
    by (simp add: main_reaches_export [OF reach] handoff_run_export)
  have raises: "run_path failing_export_world script pre = (pre, Some (Exception ''RuntimeError''))"
    by (simp add: failing_export_world_def pi_world_def)
  from main_export_raises [of failing_export_world "default_args ''~/best.pt''" boot_state
      script pre pre "Exception ''RuntimeError''"] h raises
  show ?thesis by simp
qed

text \<open>
  C8. The claim: whatever the search path was, after \<^verbatim>\<open>ensure_repo_on_path\<close> the
  checkout directory is its first entry (line 116 announces "put the local yolov5 at
  the very front of sys.path"). Line 10 inserts the directory only when it is not on
  the path at all: a path that holds it further back is left as it is. The theorem
  runs the code on such a path.
\<close>

theorem ensure_repo_on_path_keeps_position:
  "ensure_repo_on_path pi_world pythonpath_state = Inr (''/home/pi/yolov5'', pythonpath_state)
   \<and> sys_path pythonpath_state = [''/home/pi'', ''/home/pi/yolov5'', ''/usr/lib/python3.11'']
   \<and> hd (sys_path pythonpath_state) \<noteq> ''/home/pi/yolov5''"
  by (simp add: ensure_repo_on_path_def pi_world_def pythonpath_state_def boot_state_def
      posix_expanduser_def rstrip_slash_def Let_def)

text \<open>
  C9. When \<^verbatim>\<open>main\<close> reaches the export (weights file, onnx and checkout present), the
  environment handed to the export script binds \<^verbatim>\<open>YOLOV5_AUTOINSTALL\<close> to the caller's
  value if the caller bound it and to \<^verbatim>\<open>'0'\<close> otherwise, binds
  \<^verbatim>\<open>ULTRALYTICS_NO_AUTOINSTALL\<close> to the caller's value if bound and to \<^verbatim>\<open>'1'\<close> otherwise,
  and agrees with the caller's environment on every other variable. A run that ends
  before the export leaves the environment as it was.
\<close>

theorem main_autoinstall_env:
  "(isfile w (expanduser w (weights a)) \<and> import_onnx w = None
      \<and> isdir w (expanduser w ''~/yolov5'') \<longrightarrow>
      (\<exists>script pre. handoff (main w a st) = Some (script, pre)
         \<and> environ pre ''YOLOV5_AUTOINSTALL'' =
             Some (case environ st ''YOLOV5_AUTOINSTALL'' of None \<Rightarrow> ''0'' | Some v \<Rightarrow> v)
         \<and> environ pre ''ULTRALYTICS_NO_AUTOINSTALL'' =
             Some (case environ st ''ULTRALYTICS_NO_AUTOINSTALL'' of None \<Rightarrow> ''1'' | Some v \<Rightarrow> v)
         \<and> (\<forall>k. k \<noteq> ''YOLOV5_AUTOINSTALL'' \<and> k \<noteq> ''ULTRALYTICS_NO_AUTOINSTALL'' \<longrightarrow>
               environ pre k = environ st k)))
   \<and> (handoff (main w a st) = None \<longrightarrow> environ (final (main w a st)) = environ st)"
proof (intro conjI impI)
  assume reach: "isfile w (expanduser w (weights a)) \<and> import_onnx w = None
      \<and> isdir w (expanduser w ''~/yolov5'')"
  then have m: "main w a st =
    run_export w (expanduser w ''~/yolov5'') (expanduser w (weights a)) a
      (let s = stub_optional_packages (patch_pathlib_only w st)
       in if expanduser w ''~/yolov5'' \<in> set (sys_path s) then s
          else s\<lparr>sys_path := expanduser w ''~/yolov5'' # sys_path s\<rparr>)"
    by (simp add: main_reaches_export)
  show "\<exists>script pre. handoff (main w a st) = Some (script, pre)
         \<and> environ pre ''YOLOV5_AUTOINSTALL'' =
             Some (case environ st ''YOLOV5_AUTOINSTALL'' of None \<Rightarrow> ''0'' | Some v \<Rightarrow> v)
         \<and> environ pre ''ULTRALYTICS_NO_AUTOINSTALL'' =
             Some (case environ st ''ULTRALYTICS_NO_AUTOINSTALL'' of None \<Rightarrow> ''1'' | Some v \<Rightarrow> v)
         \<and> (\<forall>k. k \<noteq> ''YOLOV5_AUTOINSTALL'' \<and> k \<noteq> ''ULTRALYTICS_NO_AUTOINSTALL'' \<longrightarrow>
               environ pre k = environ st k)"
    by (simp add: m handoff_run_export environ_set_autoinstall_env Let_def)
next
  assume "handoff (main w a st) = None"
  then show "environ (final (main w a st)) = environ st"
    by (auto simp add: main_def ensure_repo_on_path_def raise_before_export_def
        handoff_run_export Let_def split: option.splits if_splits)
qed

theorem main_autoinstall_env_witness:
  "isfile pi_world (expanduser pi_world (weights (default_args ''~/best.pt'')))
   \<and> import_onnx pi_world = None
   \<and> isdir pi_world (expanduser pi_world ''~/yolov5'')
   \<and> environ caller_env_state ''YOLOV5_AUTOINSTALL'' = Some ''1''
   \<and> environ caller_env_state ''ULTRALYTICS_NO_AUTOINSTALL'' = None
   \<and> (\<exists>script pre.
        handoff (main pi_world (default_args ''~/best.pt'') caller_env_state) = Some (script, pre)
        \<and> environ pre ''YOLOV5_AUTOINSTALL'' = Some ''1''
        \<and> environ pre ''ULTRALYTICS_NO_AUTOINSTALL'' = Some ''1''
        \<and> environ pre ''HOME'' = Some ''/home/pi'')"
proof -
  have hyps: "isfile pi_world (expanduser pi_world (weights (default_args ''~/best.pt'')))
      \<and> import_onnx pi_world = None \<and> isdir pi_world (expanduser pi_world ''~/yolov5'')"
    by (simp add: pi_world_def default_args_def posix_expanduser_def rstrip_slash_def)
  have env: "environ caller_env_state ''YOLOV5_AUTOINSTALL'' = Some ''1''"
      "environ caller_env_state ''ULTRALYTICS_NO_AUTOINSTALL'' = None"
      "environ caller_env_state ''HOME'' = Some ''/home/pi''"
    by (simp_all add: caller_env_state_def boot_state_def)
  from main_autoinstall_env [of pi_world "default_args ''~/best.pt''" caller_env_state] hyps
  obtain script pre where
    h: "handoff (main pi_world (default_args ''~/best.pt'') caller_env_state) = Some (script, pre)"
    and e1: "environ pre ''YOLOV5_AUTOINSTALL'' =
      Some (case environ caller_env_state ''YOLOV5_AUTOINSTALL'' of None \<Rightarrow> ''0'' | Some v \<Rightarrow> v)"
    and e2: "environ pre ''ULTRALYTICS_NO_AUTOINSTALL'' =
      Some (case environ caller_env_state ''ULTRALYTICS_NO_AUTOINSTALL'' of None \<Rightarrow> ''1'' | Some v \<Rightarrow> v)"
    and e3: "\<forall>k. k \<noteq> ''YOLOV5_AUTOINSTALL'' \<and> k \<noteq> ''ULTRALYTICS_NO_AUTOINSTALL'' \<longrightarrow>
               environ pre k = environ caller_env_state k"
    by blast
  from e3 have "environ pre ''HOME'' = environ caller_env_state ''HOME''" by simp
  with h e1 e2 env hyps show ?thesis by auto
qed

text \<open>
  C10. When \<^verbatim>\<open>import onnx\<close> fails with an exception, \<^verbatim>\<open>main\<close> ends with process status
  1, the interpreter state is the one it started with (no placeholder registered, no
  \<^verbatim>\<open>pathlib\<close> patch, search path and environment untouched) and \<^verbatim>\<open>runpy.run_path\<close> has
  not been called; when the weights file exists, the exception is the \<^verbatim>\<open>SystemExit\<close>
  carrying the hint of line 110.
\<close>

theorem main_missing_onnx:
  assumes "import_onnx w = Some (Exception c)"
  shows "final (main w a st) = st
       \<and> handoff (main w a st) = None
       \<and> printed (main w a st) = []
       \<and> process_status (main w a st) = Exited 1
       \<and> (isfile w (expanduser w (weights a)) \<longrightarrow>
            outcome (main w a st) = Some (SystemExit (CodeMsg ErrNoOnnx)))"
  using assms by (simp add: main_def raise_before_export_def process_status_def Let_def)

theorem main_missing_onnx_witness:
  "import_onnx no_onnx_world = Some (Exception ''ModuleNotFoundError'')
   \<and> isfile no_onnx_world (expanduser no_onnx_world (weights (default_args ''~/best.pt'')))
   \<and> final (main no_onnx_world (default_args ''~/best.pt'') boot_state) = boot_state
   \<and> handoff (main no_onnx_world (default_args ''~/best.pt'') boot_state) = None
   \<and> process_status (main no_onnx_world (default_args ''~/best.pt'') boot_state) = Exited 1
   \<and> outcome (main no_onnx_world (default_args ''~/best.pt'') boot_state)
       = Some (SystemExit (CodeMsg ErrNoOnnx))"
  using main_missing_onnx [of no_onnx_world "''ModuleNotFoundError''"
      "default_args ''~/best.pt''" boot_state]
  by (simp add: no_onnx_world_def pi_world_def default_args_def posix_expanduser_def
      rstrip_slash_def)

section \<open>Further properties\<close>

text \<open>
  X1. \<^verbatim>\<open>stub_optional_packages\<close> never rebinds a registered name: whatever module object
  the registry holds under a name before, it holds under that name afterwards.
\<close>

theorem stub_optional_packages_keeps_registry:
  assumes "sys_modules st k = Some m"
  shows "sys_modules (stub_optional_packages st) k = Some m"
proof -
  have p: "sys_modules (stub_pandas st) k = Some m"
    using assms by (simp add: stub_pandas_def Let_def split_def ensure_stub_keeps)
  have mp: "sys_modules (stub_matplotlib s) k = Some m" if "sys_modules s k = Some m" for s
    using that by (simp add: stub_matplotlib_def Let_def split_def ensure_stub_keeps)
  have ot: "sys_modules (stub_others s) k = Some m" if "sys_modules s k = Some m" for s
    using that by (simp add: stub_others_def fold_ensure_stub_keeps)
  have tv: "sys_modules (stub_torchvision s) k = Some m" if "sys_modules s k = Some m" for s
    using that by (simp add: stub_torchvision_def Let_def split_def ensure_stub_keeps)
  show ?thesis
    unfolding stub_optional_packages_def by (intro tv ot mp p)
qed

theorem stub_optional_packages_keeps_registry_witness:
  "sys_modules pandas_state ''pandas'' = Some (ModuleAt 4)
   \<and> sys_modules (stub_optional_packages pandas_state) ''pandas'' = Some (ModuleAt 4)"
proof -
  have h: "sys_modules pandas_state ''pandas'' = Some (ModuleAt 4)"
    by (simp add: pandas_state_def)
  from stub_optional_packages_keeps_registry [OF h] h show ?thesis by simp
qed

text \<open>
  X2. What \<^verbatim>\<open>ensure_repo_on_path\<close> does when the checkout exists: it returns the directory,
  which then is on the search path; it is put in front when it was not on the path, and
  the path is unchanged when it was. Nothing else of the state changes.
\<close>

theorem ensure_repo_on_path_effect:
  assumes "isdir w (expanduser w ''~/yolov5'')"
  shows "\<exists>st'. ensure_repo_on_path w st = Inr (expanduser w ''~/yolov5'', st')
       \<and> sys_path st' =
           (if expanduser w ''~/yolov5'' \<in> set (sys_path st) then sys_path st
            else expanduser w ''~/yolov5'' # sys_path st)
       \<and> expanduser w ''~/yolov5'' \<in> set (sys_path st')
       \<and> st' = st\<lparr>sys_path := sys_path st'\<rparr>"
  using assms by (simp add: ensure_repo_on_path_def Let_def)

theorem ensure_repo_on_path_effect_witness:
  "isdir pi_world (expanduser pi_world ''~/yolov5'')
   \<and> (\<exists>st'. ensure_repo_on_path pi_world boot_state = Inr (''/home/pi/yolov5'', st')
         \<and> sys_path st' = [''/home/pi/yolov5'', ''/home/pi'', ''/usr/lib/python3.11''])"
proof -
  have h: "isdir pi_world (expanduser pi_world ''~/yolov5'')"
    by (simp add: pi_world_def posix_expanduser_def rstrip_slash_def)
  have r: "expanduser pi_world ''~/yolov5'' = ''/home/pi/yolov5''"
    by (simp add: pi_world_def posix_expanduser_def rstrip_slash_def)
  have p: "sys_path boot_state = [''/home/pi'', ''/usr/lib/python3.11'']"
    by (simp add: boot_state_def)
  from ensure_repo_on_path_effect [OF h, of boot_state] h show ?thesis
    by (auto simp add: r p)
qed

end
